theory Spec2Isabelle
  imports Complex_Main "HOL-Library.Word"
begin

section \<open>Data model (client/src/types/ml-types.ts)\<close>

text \<open>
  Numbers of the TypeScript source are modelled as follows: counts, indices and epoch
  numbers are \<open>nat\<close>, clock readings (milliseconds) are \<open>int\<close>, and the floating-point
  quantities (loss, accuracy, probabilities, pixel intensities) are \<open>real\<close>. Rounding
  and NaN of IEEE arithmetic are therefore outside the model.
\<close>

type_synonym byte = "8 word"

text \<open>The browser's \<open>ImageData\<close>: RGBA bytes, four per pixel, row by row.\<close>

record ImageData =
  width :: nat
  height :: nat
  data :: "byte list"

record ImageSample =
  sample_id :: string
  imageData :: ImageData
  url :: string

record TrainingClass =
  class_id :: string
  name :: string
  color :: string
  samples :: "ImageSample list"

record TrainingProgress =
  epoch :: nat
  totalEpochs :: nat
  accuracy :: real
  loss :: real
  samplesProcessed :: nat
  timeElapsed :: int

text \<open>An element of \<open>trainingHistory\<close>: \<open>{ epoch, loss, accuracy }\<close>.\<close>

record HistoryEntry =
  h_epoch :: nat
  h_loss :: real
  h_accuracy :: real

record Prediction =
  className :: string
  confidence :: real
  classIndex :: nat

datatype TrainingStatus = Idle | Training | Completed | Error

section \<open>Tensors and the TensorFlow.js operations the code calls\<close>

text \<open>
  A tensor is a shape and a flat buffer of values in row-major order, as in
  TensorFlow.js. The operations below are the library's, written out from their
  documented behaviour over real numbers; they are not code of this repository.
\<close>

record tensor =
  shape :: "nat list"
  vals :: "real list"

datatype exn = Exception

text \<open>
  \<open>tf.browser.fromPixels\<close> with its default of three channels: the red, green and blue
  bytes of every pixel, the alpha byte dropped. The element handed to it is modelled by
  the pixels the browser decoded for it; a buffer that is not a picture (no pixels, or
  not four bytes for each) makes the call throw.
\<close>

definition well_formed :: "ImageData \<Rightarrow> bool" where
  "well_formed img \<longleftrightarrow>
     0 < width img \<and> 0 < height img \<and> length (data img) = 4 * (height img * width img)"

definition fromPixels :: "ImageData \<Rightarrow> exn + tensor" where
  "fromPixels img =
     (if \<not> well_formed img then Inl Exception
      else Inr \<lparr>shape = [height img, width img, 3],
                vals = concat (map (\<lambda>p. map (\<lambda>d. real (unat (data img ! (4 * p + d)))) [0..<3])
                                 [0..<height img * width img])\<rparr>)"

definition lerp :: "real \<Rightarrow> real \<Rightarrow> real \<Rightarrow> real" where
  "lerp a b t = a + (b - a) * t"

text \<open>
  One output value of \<open>tf.image.resizeBilinear\<close> (corners not aligned, no half-pixel
  centres): the source position of output row \<open>r\<close> is \<open>r\<close> times the ratio of the
  heights, its two neighbouring rows are the floor and the ceiling of that (the
  ceiling capped at the last row), likewise for the column, and the four neighbours are
  interpolated along the row first.
\<close>

definition resize_value ::
    "real list \<Rightarrow> nat \<Rightarrow> nat \<Rightarrow> nat \<Rightarrow> nat \<Rightarrow> nat \<Rightarrow> nat \<Rightarrow> nat \<Rightarrow> nat \<Rightarrow> real" where
  "resize_value xValues oldHeight oldWidth numChannels newHeight newWidth r c d =
     (let sourceFracRow = (real oldHeight / real newHeight) * real r;
          sourceRowFloor = nat \<lfloor>sourceFracRow\<rfloor>;
          rowFrac = sourceFracRow - real sourceRowFloor;
          sourceRowCeil = min (oldHeight - 1) (nat \<lceil>sourceFracRow\<rceil>);
          sourceFracCol = (real oldWidth / real newWidth) * real c;
          sourceColFloor = nat \<lfloor>sourceFracCol\<rfloor>;
          colFrac = sourceFracCol - real sourceColFloor;
          sourceColCeil = min (oldWidth - 1) (nat \<lceil>sourceFracCol\<rceil>);
          pixel = (\<lambda>y x. xValues ! (y * (oldWidth * numChannels) + x * numChannels + d));
          top = lerp (pixel sourceRowFloor sourceColFloor) (pixel sourceRowFloor sourceColCeil) colFrac;
          bottom = lerp (pixel sourceRowCeil sourceColFloor) (pixel sourceRowCeil sourceColCeil) colFrac
      in lerp top bottom rowFrac)"

definition resizeBilinear :: "tensor \<Rightarrow> nat \<Rightarrow> nat \<Rightarrow> exn + tensor" where
  "resizeBilinear t newHeight newWidth =
     (case shape t of
        [oldHeight, oldWidth, numChannels] \<Rightarrow>
          Inr \<lparr>shape = [newHeight, newWidth, numChannels],
               vals = concat (map (\<lambda>r. concat (map (\<lambda>c. map
                         (resize_value (vals t) oldHeight oldWidth numChannels newHeight newWidth r c)
                         [0..<numChannels]) [0..<newWidth])) [0..<newHeight])\<rparr>
      | _ \<Rightarrow> Inl Exception)"

text \<open>\<open>cast('float32')\<close> changes the type tag only; the values are already reals here.\<close>

definition cast_float32 :: "tensor \<Rightarrow> tensor" where
  "cast_float32 t = t"

definition div_scalar :: "tensor \<Rightarrow> real \<Rightarrow> tensor" where
  "div_scalar t k = t\<lparr>vals := map (\<lambda>v. v / k) (vals t)\<rparr>"

definition expandDims0 :: "tensor \<Rightarrow> tensor" where
  "expandDims0 t = t\<lparr>shape := 1 # shape t\<rparr>"

text \<open>\<open>preprocessImage\<close> (ml-utils.ts, lines 51-70).\<close>

definition preprocessImage :: "ImageData \<Rightarrow> exn + tensor" where
  "preprocessImage imageElement =
     (case fromPixels imageElement of
        Inl e \<Rightarrow> Inl e
      | Inr t \<Rightarrow>
          (case resizeBilinear t 224 224 of
             Inl e \<Rightarrow> Inl e
           | Inr resized \<Rightarrow>
               (let casted = cast_float32 resized;
                    normalized = div_scalar casted 255;
                    batched = expandDims0 normalized
                in Inr batched)))"

section \<open>The transfer model (client/src/lib/ml-utils.ts)\<close>

text \<open>
  A layer of the loaded base model: its name and its symbolic output, which is a
  function of the model's input tensor.
\<close>

record layer =
  layer_name :: string
  layer_output :: "tensor \<Rightarrow> real list"

record base_model =
  layers :: "layer list"
  model_output :: "tensor \<Rightarrow> real list"

text \<open>
  The model \<open>createTransferModel\<close> returns: the frozen feature extractor, the dropout
  layer and the dense softmax layer \<open>predictions\<close> with one unit per class. The dense
  layer's weights belong to the model object and are changed in place by \<open>fit\<close>.
\<close>

record transfer_model =
  featureExtractor :: "tensor \<Rightarrow> real list"
  extractor_trainable :: bool
  dropout_rate :: real
  units :: nat
  kernel :: "nat \<Rightarrow> real list"
  bias :: "nat \<Rightarrow> real"

text \<open>\<open>String.prototype.includes\<close>.\<close>

fun str_includes :: "string \<Rightarrow> string \<Rightarrow> bool" where
  "str_includes [] sub = (sub = [])"
| "str_includes (c # cs) sub = (take (length sub) (c # cs) = sub \<or> str_includes cs sub)"

text \<open>
  \<open>createTransferModel\<close>, lines 72-123. The first layer whose name includes one of the
  three patterns is the cut point; without one, the second-to-last layer is; with
  fewer than two layers the read of \<open>.output\<close> throws inside the \<open>try\<close> and the whole base
  model is used. \<open>init\<close> is the dense layer's initial kernel (random in the library).
\<close>

definition find_cut :: "base_model \<Rightarrow> layer option" where
  "find_cut baseModel =
     List.find (\<lambda>l. str_includes (layer_name l) ''global_average_pooling''
                  \<or> str_includes (layer_name l) ''flatten''
                  \<or> str_includes (layer_name l) ''dense'') (layers baseModel)"

definition feature_extractor_of :: "base_model \<Rightarrow> tensor \<Rightarrow> real list" where
  "feature_extractor_of baseModel =
     (case find_cut baseModel of
        Some l \<Rightarrow> layer_output l
      | None \<Rightarrow>
          (if 2 \<le> length (layers baseModel)
           then layer_output (layers baseModel ! (length (layers baseModel) - 2))
           else model_output baseModel))"

definition createTransferModel ::
    "(nat \<Rightarrow> real list) \<Rightarrow> base_model \<Rightarrow> nat \<Rightarrow> transfer_model" where
  "createTransferModel init baseModel numClasses =
     \<lparr>featureExtractor = feature_extractor_of baseModel,
      extractor_trainable = False,
      dropout_rate = 2 / 10,
      units = numClasses,
      kernel = init,
      bias = (\<lambda>_. 0)\<rparr>"

text \<open>
  What the assembled model computes for one input at inference: the extractor's
  features, the dropout layer as the identity, the dense layer, and the softmax
  activation (the exponentials divided by their sum).
\<close>

definition dense :: "transfer_model \<Rightarrow> real list \<Rightarrow> real list" where
  "dense m x = map (\<lambda>k. sum_list (map2 (*) x (kernel m k)) + bias m k) [0..<units m]"

definition softmax :: "real list \<Rightarrow> real list" where
  "softmax zs = map (\<lambda>z. exp z / sum_list (map exp zs)) zs"

definition model_predict :: "transfer_model \<Rightarrow> tensor \<Rightarrow> real list" where
  "model_predict m t = softmax (dense m (featureExtractor m t))"

text \<open>\<open>predict\<close> (ml-utils.ts, lines 154-159).\<close>

definition predict :: "transfer_model \<Rightarrow> ImageData \<Rightarrow> exn + real list" where
  "predict m imageElement =
     (case preprocessImage imageElement of
        Inl e \<Rightarrow> Inl e
      | Inr preprocessed \<Rightarrow> Inr (model_predict m preprocessed))"

section \<open>The hook's state (useTensorFlow)\<close>

record MLModel =
  model :: "transfer_model option"
  isReady :: bool
  baseModel :: "base_model option"

text \<open>
  Tensors the TensorFlow.js engine holds for a training run: the per-image tensors
  returned by the \<open>tf.tidy\<close> blocks, the batch \<open>xs\<close>, the label vector given to
  \<open>tf.oneHot\<close>, and the one-hot labels \<open>ys\<close>.
\<close>

datatype tensor_id = Normalized nat | Xs | Labels | Ys

text \<open>
  The six state variables of the hook, then what the hook does to its surroundings:
  \<open>liveTensors\<close> are the tensors allocated and not yet disposed, and \<open>progressStream\<close> is
  every value passed to \<open>setTrainingProgress\<close>, in order.
\<close>

record state =
  isInitialized :: bool
  mlModel :: MLModel
  trainingStatus :: TrainingStatus
  trainingProgress :: "TrainingProgress option"
  trainingHistory :: "HistoryEntry list"
  error :: "string option"
  liveTensors :: "tensor_id list"
  progressStream :: "TrainingProgress list"

definition initial_state :: state where
  "initial_state =
     \<lparr>isInitialized = False,
      mlModel = \<lparr>model = None, isReady = False, baseModel = None\<rparr>,
      trainingStatus = Idle,
      trainingProgress = None,
      trainingHistory = [],
      error = None,
      liveTensors = [],
      progressStream = []\<rparr>"

definition setError :: "string option \<Rightarrow> state \<Rightarrow> state" where
  "setError e s = s\<lparr>error := e\<rparr>"

definition setTrainingStatus :: "TrainingStatus \<Rightarrow> state \<Rightarrow> state" where
  "setTrainingStatus st s = s\<lparr>trainingStatus := st\<rparr>"

definition setTrainingHistory :: "(HistoryEntry list \<Rightarrow> HistoryEntry list) \<Rightarrow> state \<Rightarrow> state" where
  "setTrainingHistory f s = s\<lparr>trainingHistory := f (trainingHistory s)\<rparr>"

definition setTrainingProgress :: "TrainingProgress \<Rightarrow> state \<Rightarrow> state" where
  "setTrainingProgress p s =
     s\<lparr>trainingProgress := Some p, progressStream := progressStream s @ [p]\<rparr>"

definition setModel :: "(MLModel \<Rightarrow> MLModel) \<Rightarrow> state \<Rightarrow> state" where
  "setModel f s = s\<lparr>mlModel := f (mlModel s)\<rparr>"

definition tf_alloc :: "tensor_id \<Rightarrow> state \<Rightarrow> state" where
  "tf_alloc t s = s\<lparr>liveTensors := liveTensors s @ [t]\<rparr>"

definition dispose :: "tensor_id \<Rightarrow> state \<Rightarrow> state" where
  "dispose t s = s\<lparr>liveTensors := remove1 t (liveTensors s)\<rparr>"

section \<open>The hook's operations (useTensorFlow)\<close>

text \<open>
  What the code does not decide itself is an argument of the model: whether a library
  call throws, what the clock reads, what \<open>fit\<close> reports for an epoch.
\<close>

subsection \<open>initTensorFlow, loadBaseModel, createModel\<close>

text \<open>Lines 16-34: WebGL first, then the CPU backend; the arguments say which succeed.\<close>

definition initTensorFlow :: "bool \<Rightarrow> bool \<Rightarrow> state \<Rightarrow> state" where
  "initTensorFlow webgl_ok cpu_ok s =
     (if webgl_ok \<or> cpu_ok then s\<lparr>isInitialized := True\<rparr>
      else setError (Some ''Failed to initialize machine learning framework. Please refresh the page.'') s)"

text \<open>
  \<open>loadMobileNet\<close> (ml-utils.ts, lines 5-24): the download with the WebGL backend, then
  with the CPU backend, then the built-in fallback network.
\<close>

definition loadMobileNet ::
    "base_model option \<Rightarrow> base_model option \<Rightarrow> base_model \<Rightarrow> base_model" where
  "loadMobileNet webgl cpu fallback =
     (case webgl of
        Some m \<Rightarrow> m
      | None \<Rightarrow> (case cpu of Some m \<Rightarrow> m | None \<Rightarrow> fallback))"

text \<open>
  Lines 40-55. \<open>loaded\<close> is what \<open>await loadMobileNet()\<close> gave: \<open>None\<close> when it gave
  nothing or threw.
\<close>

definition loadBaseModel :: "base_model option \<Rightarrow> state \<Rightarrow> state" where
  "loadBaseModel loaded s =
     (if \<not> isInitialized s then s
      else
        (case loaded of
           Some b \<Rightarrow> setModel (\<lambda>prev. prev\<lparr>baseModel := Some b\<rparr>) (setError None s)
         | None \<Rightarrow>
             setError (Some ''Failed to load base model. Please refresh and try again.'')
               (setError None s)))"

record build_env =
  init_kernel :: "nat \<Rightarrow> real list"
  build_throws :: bool

text \<open>Lines 58-76. \<open>build_throws\<close>: the library throws while the head is assembled.\<close>

definition createModel :: "build_env \<Rightarrow> TrainingClass list \<Rightarrow> state \<Rightarrow> state" where
  "createModel tf classes s =
     (case baseModel (mlModel s) of
        None \<Rightarrow> setError (Some ''Need at least 2 classes and a loaded base model'') s
      | Some b \<Rightarrow>
          if length classes < 2
          then setError (Some ''Need at least 2 classes and a loaded base model'') s
          else if build_throws tf
          then setError (Some ''Failed to create training model'') (setError None s)
          else
            setModel
              (\<lambda>prev. prev\<lparr>model := Some (createTransferModel (init_kernel tf) b (length classes)),
                            isReady := False\<rparr>)
              (setError None s))"

subsection \<open>trainModel (ml-utils.ts, lines 125-152)\<close>

datatype logs = Logs (logs_loss: real) (logs_acc: "real option")

text \<open>
  What one epoch of \<open>model.fit\<close> does, as far as the caller sees it: it throws, or it
  ends with new weights for the dense layer, the \<open>logs\<close> passed to \<open>onEpochEnd\<close> and the
  reading of \<open>Date.now()\<close> at that moment.
\<close>

record epoch_report =
  new_kernel :: "nat \<Rightarrow> real list"
  new_bias :: "nat \<Rightarrow> real"
  report_logs :: "logs option"
  clock :: int

datatype epoch_event = EpochEnd epoch_report | FitThrows

datatype completion = Returned | Threw | Pending

definition set_weights :: "epoch_report \<Rightarrow> state \<Rightarrow> state" where
  "set_weights r s =
     setModel
       (\<lambda>prev. prev\<lparr>model := map_option (\<lambda>m. m\<lparr>kernel := new_kernel r, bias := new_bias r\<rparr>)
                                   (model prev)\<rparr>) s"

text \<open>
  \<open>model.fit\<close> with \<open>epochs\<close> epochs runs them in order from epoch 0 and calls
  \<open>callbacks.onEpochEnd(epoch, logs)\<close> after each; an exception ends it.
\<close>

fun fit ::
    "(nat \<Rightarrow> epoch_event) \<Rightarrow> (nat \<Rightarrow> logs option \<Rightarrow> int \<Rightarrow> state \<Rightarrow> state)
      \<Rightarrow> nat list \<Rightarrow> state \<Rightarrow> completion \<times> state" where
  "fit ev cb [] s = (Returned, s)"
| "fit ev cb (e # es) s =
     (case ev e of
        FitThrows \<Rightarrow> (Threw, s)
      | EpochEnd r \<Rightarrow> fit ev cb es (cb e (report_logs r) (clock r) (set_weights r s)))"

text \<open>The callback is called only when \<open>logs\<close> is there: \<open>if (onEpochEnd && logs)\<close>.\<close>

definition trainModel ::
    "(nat \<Rightarrow> epoch_event) \<Rightarrow> nat \<Rightarrow> (nat \<Rightarrow> real \<Rightarrow> real option \<Rightarrow> int \<Rightarrow> state \<Rightarrow> state)
      \<Rightarrow> state \<Rightarrow> completion \<times> state" where
  "trainModel ev epochs onEpochEnd s =
     fit ev
       (\<lambda>e lg now s'. case lg of None \<Rightarrow> s' | Some l \<Rightarrow> onEpochEnd e (logs_loss l) (logs_acc l) now s')
       [0..<epochs] s"

subsection \<open>startTraining (lines 79-165)\<close>

record train_env =
  image_loads :: "nat \<Rightarrow> bool"
  pixels_ok :: "nat \<Rightarrow> bool"
  stack_ok :: bool
  oneHot_ok :: bool
  startTime :: int
  fit_events :: "nat \<Rightarrow> epoch_event"

text \<open>\<open>Array.prototype.join\<close> on strings.\<close>

fun join :: "string \<Rightarrow> string list \<Rightarrow> string" where
  "join sep [] = []"
| "join sep [x] = x"
| "join sep (x # y # ys) = x @ sep @ join sep (y # ys)"

definition no_samples_message :: "TrainingClass list \<Rightarrow> string" where
  "no_samples_message invalidClasses =
     ''Classes '' @ [CHR 0x22] @ join ([CHR 0x22] @ '', '' @ [CHR 0x22]) (map name invalidClasses)
       @ [CHR 0x22] @ '' have no training samples''"

text \<open>
  Lines 98-112: one label per sample, the class's position in the list. Each sample's
  image is awaited with a promise that only \<open>onload\<close> resolves.
\<close>

fun labels_from :: "nat \<Rightarrow> TrainingClass list \<Rightarrow> nat list" where
  "labels_from ci [] = []"
| "labels_from ci (classData # rest) =
     replicate (length (samples classData)) ci @ labels_from (Suc ci) rest"

text \<open>
  Lines 115-122: every image becomes a tensor inside its own \<open>tf.tidy\<close>, which returns
  (and so keeps) the normalized tensor; the first conversion that throws ends the map.
\<close>

fun convert_images :: "(nat \<Rightarrow> bool) \<Rightarrow> nat list \<Rightarrow> state \<Rightarrow> completion \<times> state" where
  "convert_images ok [] s = (Returned, s)"
| "convert_images ok (i # rest) s =
     (if ok i then convert_images ok rest (tf_alloc (Normalized i) s) else (Threw, s))"

text \<open>The callback given to \<open>trainModel\<close>, lines 132-151.\<close>

definition onEpochEnd ::
    "int \<Rightarrow> nat \<Rightarrow> nat \<Rightarrow> nat \<Rightarrow> real \<Rightarrow> real option \<Rightarrow> int \<Rightarrow> state \<Rightarrow> state" where
  "onEpochEnd start epochs nImages e lss acc now s =
     (let timeElapsed = now - start;
          acc100 = (case acc of None \<Rightarrow> 0 | Some a \<Rightarrow> a) * 100;
          currentProgress =
            \<lparr>epoch = e + 1, totalEpochs = epochs, accuracy = acc100, loss = lss,
             samplesProcessed = nImages, timeElapsed = timeElapsed div 1000\<rparr>
      in setTrainingHistory
           (\<lambda>prev. prev @ [\<lparr>h_epoch = e + 1, h_loss = lss, h_accuracy = acc100\<rparr>])
           (setTrainingProgress currentProgress s))"

text \<open>
  Lines 93-124, the start of the \<open>try\<close>: the three state updates, the images, and the
  tensors \<open>xs\<close> and \<open>ys\<close>. \<open>Pending\<close>: an image never loads, and the call never goes on.
\<close>

definition begin_run :: "state \<Rightarrow> state" where
  "begin_run s = setTrainingHistory (\<lambda>_. []) (setError None (setTrainingStatus Training s))"

definition prepare :: "train_env \<Rightarrow> nat \<Rightarrow> state \<Rightarrow> completion \<times> state" where
  "prepare env n s1 =
     (if \<not> list_all (image_loads env) [0..<n] then (Pending, s1)
      else
        (case convert_images (pixels_ok env) [0..<n] s1 of
           (Returned, s2) \<Rightarrow>
             if \<not> stack_ok env then (Threw, s2)
             else
               (let s3 = tf_alloc Labels (tf_alloc Xs s2)
                in if \<not> oneHot_ok env then (Threw, s3) else (Returned, tf_alloc Ys s3))
         | other \<Rightarrow> other))"

text \<open>The body of the \<open>try\<close>, lines 93-159.\<close>

definition training_body ::
    "train_env \<Rightarrow> TrainingClass list \<Rightarrow> nat \<Rightarrow> state \<Rightarrow> completion \<times> state" where
  "training_body env classes epochs s0 =
     (let n = length (labels_from 0 classes)
      in case prepare env n (begin_run s0) of
           (Returned, s3) \<Rightarrow>
             (case trainModel (fit_events env) epochs (onEpochEnd (startTime env) epochs n) s3 of
                (Returned, s4) \<Rightarrow>
                  (Returned,
                   setTrainingStatus Completed
                     (setModel (\<lambda>prev. prev\<lparr>isReady := True\<rparr>) (dispose Ys (dispose Xs s4))))
              | other \<Rightarrow> other)
         | other \<Rightarrow> other)"

text \<open>
  How a call of \<open>startTraining\<close> ends: at the first guard (line 82), at the check for
  classes without samples (line 89), after the \<open>try\<close> block, in the \<open>catch\<close> block, or
  never, when an image does not load.
\<close>

datatype exit = GuardReturn | NoSamplesReturn | TryDone | Caught | NeverSettles

definition startTraining ::
    "train_env \<Rightarrow> TrainingClass list \<Rightarrow> nat \<Rightarrow> state \<Rightarrow> exit \<times> state" where
  "startTraining env classes epochs s =
     (if model (mlModel s) = None \<or> length classes < 2
      then (GuardReturn, setError (Some ''Model not ready or insufficient classes'') s)
      else
        (let invalidClasses = filter (\<lambda>cls. length (samples cls) = 0) classes
         in if 0 < length invalidClasses
            then (NoSamplesReturn, setError (Some (no_samples_message invalidClasses)) s)
            else
              (case training_body env classes epochs s of
                 (Returned, s') \<Rightarrow> (TryDone, s')
               | (Threw, s') \<Rightarrow>
                   (Caught,
                    setTrainingStatus Error
                      (setError (Some ''Training failed. Please check your data and try again.'') s'))
               | (Pending, s') \<Rightarrow> (NeverSettles, s'))))"

subsection \<open>makePrediction (lines 168-192)\<close>

text \<open>A natural number in decimal, as a template literal prints it.\<close>

fun show_nat :: "nat \<Rightarrow> string" where
  "show_nat n =
     (if n < 10 then [char_of (48 + n)] else show_nat (n div 10) @ [char_of (48 + n mod 10)])"

declare show_nat.simps [simp del]

text \<open>\<open>classes[index]?.name || `Class ${index + 1}`\<close>: the empty name is falsy too.\<close>

definition class_name_or_default :: "TrainingClass list \<Rightarrow> nat \<Rightarrow> string" where
  "class_name_or_default cs i =
     (if i < length cs \<and> name (cs ! i) \<noteq> [] then name (cs ! i)
      else ''Class '' @ show_nat (i + 1))"

text \<open>
  \<open>Array.prototype.sort\<close> with a comparator: the language fixes a stable sort, which
  for a consistent comparator has one possible result; insertion from the right
  computes it. An element goes before the first element it does not compare greater
  than.
\<close>

fun insert_by :: "('a \<Rightarrow> 'a \<Rightarrow> real) \<Rightarrow> 'a \<Rightarrow> 'a list \<Rightarrow> 'a list" where
  "insert_by cmp x [] = [x]"
| "insert_by cmp x (y # ys) = (if cmp x y \<le> 0 then x # y # ys else y # insert_by cmp x ys)"

definition array_sort :: "('a \<Rightarrow> 'a \<Rightarrow> real) \<Rightarrow> 'a list \<Rightarrow> 'a list" where
  "array_sort cmp xs = foldr (insert_by cmp) xs []"

definition to_predictions :: "TrainingClass list \<Rightarrow> real list \<Rightarrow> Prediction list" where
  "to_predictions cs predictionData =
     map (\<lambda>(c, i). \<lparr>className = class_name_or_default cs i, confidence = c * 100, classIndex = i\<rparr>)
       (zip predictionData [0..<length predictionData])"

definition makePrediction ::
    "ImageData \<Rightarrow> TrainingClass list \<Rightarrow> state \<Rightarrow> string + Prediction list" where
  "makePrediction imageElement cs s =
     (case model (mlModel s) of
        None \<Rightarrow> Inl ''Model not ready for predictions''
      | Some m \<Rightarrow>
          if \<not> isReady (mlModel s) then Inl ''Model not ready for predictions''
          else
            (case predict m imageElement of
               Inl _ \<Rightarrow> Inl ''Failed to make prediction''
             | Inr predictionData \<Rightarrow>
                 Inr (array_sort (\<lambda>a b. confidence b - confidence a)
                        (to_predictions cs predictionData))))"

text \<open>
  The order the specification asks of the result: the higher confidence first, and of
  two equal confidences the smaller class index first.
\<close>

definition ranked_before :: "Prediction \<Rightarrow> Prediction \<Rightarrow> bool" where
  "ranked_before a b \<longleftrightarrow>
     confidence b < confidence a \<or> (confidence a = confidence b \<and> classIndex a < classIndex b)"

subsection \<open>exportModel, clearError\<close>

definition exportModel :: "bool \<Rightarrow> state \<Rightarrow> state" where
  "exportModel save_throws s =
     (if model (mlModel s) = None \<or> \<not> isReady (mlModel s)
      then setError (Some ''No trained model to export'') s
      else if save_throws then setError (Some ''Failed to export model'') s
      else s)"

definition clearError :: "state \<Rightarrow> state" where
  "clearError s = setError None s"

section \<open>The class manager (ClassManager)\<close>



definition updateClassName :: "string \<Rightarrow> string \<Rightarrow> TrainingClass list \<Rightarrow> TrainingClass list" where
  "updateClassName classId newName cs =
     map (\<lambda>cls. if class_id cls = classId then cls\<lparr>name := newName\<rparr> else cls) cs"

definition removeClass :: "string \<Rightarrow> TrainingClass list \<Rightarrow> TrainingClass list" where
  "removeClass classId cs = filter (\<lambda>cls. class_id cls \<noteq> classId) cs"

text \<open>The end of \<open>addSampleToClass\<close> and \<open>handleWebcamCapture\<close>: the new sample is appended.\<close>

definition addSample :: "string \<Rightarrow> ImageSample \<Rightarrow> TrainingClass list \<Rightarrow> TrainingClass list" where
  "addSample classId newSample cs =
     map (\<lambda>cls. if class_id cls = classId then cls\<lparr>samples := samples cls @ [newSample]\<rparr> else cls) cs"

definition removeSample :: "string \<Rightarrow> string \<Rightarrow> TrainingClass list \<Rightarrow> TrainingClass list" where
  "removeSample classId sampleId cs =
     map (\<lambda>cls. if class_id cls = classId
                then cls\<lparr>samples := filter (\<lambda>sample. sample_id sample \<noteq> sampleId) (samples cls)\<rparr>
                else cls) cs"

section \<open>The page component (TeachableMachine)\<close>

text \<open>
  The page holds the class list and the latest predictions beside the hook; its
  model statistics and the tutorial switch are presentation only and left out.
\<close>

record page =
  hook :: state
  classes :: "TrainingClass list"
  predictions :: "Prediction list"

definition initial_page :: page where
  "initial_page =
     \<lparr>hook = initial_state,
      classes =
        [\<lparr>class_id = ''class-1'', name = ''Class A'', color = ''bg-green-500'', samples = []\<rparr>,
         \<lparr>class_id = ''class-2'', name = ''Class B'', color = ''bg-orange-500'', samples = []\<rparr>],
      predictions = []\<rparr>"

text \<open>Lines 57-61: load the base model once the library is initialized.\<close>

definition load_effect :: "base_model option \<Rightarrow> page \<Rightarrow> page" where
  "load_effect loaded p =
     (if isInitialized (hook p) \<and> baseModel (mlModel (hook p)) = None
      then p\<lparr>hook := loadBaseModel loaded (hook p)\<rparr> else p)"

text \<open>Lines 64-73: an error is shown as a toast and cleared.\<close>

definition error_effect :: "page \<Rightarrow> page" where
  "error_effect p = (if error (hook p) \<noteq> None then p\<lparr>hook := clearError (hook p)\<rparr> else p)"

text \<open>Lines 76-80: "Create model when classes change".\<close>

definition create_effect :: "build_env \<Rightarrow> page \<Rightarrow> page" where
  "create_effect tf p =
     (if baseModel (mlModel (hook p)) \<noteq> None \<and> 2 \<le> length (classes p)
      then p\<lparr>hook := createModel tf (classes p) (hook p)\<rparr> else p)"

text \<open>
  \<open>onClassesChange\<close> is \<open>setClasses\<close>: every handler of the class manager (add, rename
  and remove a class, add and remove a sample) calls it with a new array, so the
  effect on \<open>classes\<close> runs after each.
\<close>

definition onClassesChange :: "build_env \<Rightarrow> TrainingClass list \<Rightarrow> page \<Rightarrow> page" where
  "onClassesChange tf new p = error_effect (create_effect tf (p\<lparr>classes := new\<rparr>))"

text \<open>
  Mounting the page, which happens once: the library is initialized (lines 15-37 of the
  hook), then the base model is loaded, and the new base model makes the effect on
  \<open>classes\<close> run. The arguments say which backends start, what the download gave and how
  building the head goes.
\<close>

definition mount :: "bool \<Rightarrow> bool \<Rightarrow> base_model option \<Rightarrow> build_env \<Rightarrow> page \<Rightarrow> page" where
  "mount webgl_ok cpu_ok loaded tf p =
     (if isInitialized (hook p) then p
      else error_effect
             (create_effect tf
                (load_effect loaded (p\<lparr>hook := initTensorFlow webgl_ok cpu_ok (hook p)\<rparr>))))"

text \<open>Lines 92-115.\<close>

definition handleStartTraining :: "train_env \<Rightarrow> nat \<Rightarrow> page \<Rightarrow> page" where
  "handleStartTraining env epochs p =
     (let classesWithSamples = filter (\<lambda>cls. 0 < length (samples cls)) (classes p)
      in if length classesWithSamples < 2 then p
         else if min_list (map (\<lambda>cls. length (samples cls)) classesWithSamples) < 3 then p
         else error_effect (p\<lparr>hook := snd (startTraining env (classes p) epochs (hook p))\<rparr>))"

text \<open>Lines 117-141.\<close>

definition handlePredict :: "ImageData \<Rightarrow> page \<Rightarrow> page" where
  "handlePredict element p =
     (if \<not> isReady (mlModel (hook p)) then p
      else
        (case makePrediction element (classes p) (hook p) of
           Inr ps \<Rightarrow> p\<lparr>predictions := ps\<rparr>
         | Inl _ \<Rightarrow> p))"

text \<open>Lines 143-157.\<close>

definition handleExportModel :: "bool \<Rightarrow> page \<Rightarrow> page" where
  "handleExportModel save_throws p = error_effect (p\<lparr>hook := exportModel save_throws (hook p)\<rparr>)"

text \<open>What can happen to the page, one event at a time.\<close>

datatype event =
    Mount bool bool "base_model option" build_env
  | ClassesChange build_env "TrainingClass list"
  | StartTraining train_env nat
  | Predict ImageData
  | Export bool

fun step :: "event \<Rightarrow> page \<Rightarrow> page" where
  "step (Mount webgl_ok cpu_ok loaded tf) p = mount webgl_ok cpu_ok loaded tf p"
| "step (ClassesChange tf new) p = onClassesChange tf new p"
| "step (StartTraining env epochs) p = handleStartTraining env epochs p"
| "step (Predict element) p = handlePredict element p"
| "step (Export save_throws) p = handleExportModel save_throws p"

fun run :: "event list \<Rightarrow> page \<Rightarrow> page" where
  "run [] p = p"
| "run (ev # evs) p = run evs (step ev p)"

text \<open>
  A successful training run: the event passes the two checks of
  \<open>handleStartTraining\<close> and the call of \<open>startTraining\<close> reaches the end of its \<open>try\<close>
  block.
\<close>

definition passes_validation :: "TrainingClass list \<Rightarrow> bool" where
  "passes_validation cs =
     (let classesWithSamples = filter (\<lambda>cls. 0 < length (samples cls)) cs
      in 2 \<le> length classesWithSamples
         \<and> 3 \<le> min_list (map (\<lambda>cls. length (samples cls)) classesWithSamples))"


text \<open>
  What holds of the hook in every state the page can reach: a head, once built, has at
  least two output units, and without a head the model is not ready.
\<close>

definition head_invariant :: "state \<Rightarrow> bool" where
  "head_invariant s \<longleftrightarrow>
     (case model (mlModel s) of None \<Rightarrow> \<not> isReady (mlModel s) | Some m \<Rightarrow> 2 \<le> units m)"

section \<open>Example inputs\<close>

text \<open>Concrete inputs at which the theorems below are instantiated.\<close>

definition example_sample :: ImageSample where
  "example_sample =
     \<lparr>sample_id = ''sample-1'',
      imageData = \<lparr>width = 1, height = 1, data = [255, 0, 0, 255]\<rparr>,
      url = ''blob:sample-1''\<rparr>"

definition example_classes :: "TrainingClass list" where
  "example_classes =
     [\<lparr>class_id = ''class-1'', name = ''Class A'', color = ''bg-green-500'',
       samples = [example_sample, example_sample, example_sample]\<rparr>,
      \<lparr>class_id = ''class-2'', name = ''Class B'', color = ''bg-orange-500'',
       samples = [example_sample, example_sample, example_sample]\<rparr>]"

definition example_empty_class :: TrainingClass where
  "example_empty_class =
     \<lparr>class_id = ''class-3'', name = ''Class C'', color = ''bg-blue-500'', samples = []\<rparr>"

definition example_base :: base_model where
  "example_base =
     \<lparr>layers = [\<lparr>layer_name = ''conv1'', layer_output = (\<lambda>_. [1, 2, 3])\<rparr>,
                \<lparr>layer_name = ''global_average_pooling2d_1'', layer_output = (\<lambda>_. [1, 2])\<rparr>,
                \<lparr>layer_name = ''act_softmax'', layer_output = (\<lambda>_. [1])\<rparr>],
      model_output = (\<lambda>_. [1])\<rparr>"

definition example_tf :: build_env where
  "example_tf = \<lparr>init_kernel = (\<lambda>_. [0, 0]), build_throws = False\<rparr>"

definition example_head :: transfer_model where
  "example_head = createTransferModel (init_kernel example_tf) example_base 2"

text \<open>The hook with the library initialized, the base model loaded and a head for two classes.\<close>

definition example_state :: state where
  "example_state =
     initial_state
       \<lparr>isInitialized := True,
        mlModel := \<lparr>model = Some example_head, isReady = False, baseModel = Some example_base\<rparr>\<rparr>"

text \<open>The same after a successful training run.\<close>

definition example_ready_state :: state where
  "example_ready_state =
     example_state
       \<lparr>mlModel := \<lparr>model = Some example_head, isReady = True, baseModel = Some example_base\<rparr>,
        trainingStatus := Completed\<rparr>"

text \<open>A run in which every library call succeeds, and one whose second epoch throws.\<close>

definition example_env :: train_env where
  "example_env =
     \<lparr>image_loads = (\<lambda>_. True), pixels_ok = (\<lambda>_. True), stack_ok = True, oneHot_ok = True,
      startTime = 1000,
      fit_events =
        (\<lambda>e. EpochEnd \<lparr>new_kernel = (\<lambda>_. [1, 0]), new_bias = (\<lambda>_. 0),
                        report_logs = Some (Logs (1 / 2) (Some (3 / 4))),
                        clock = 2500 + 1000 * int e\<rparr>)\<rparr>"

definition example_failing_env :: train_env where
  "example_failing_env =
     example_env\<lparr>fit_events := (\<lambda>e. if e = 0 then fit_events example_env e else FitThrows)\<rparr>"

text \<open>
  The hook in the middle of a run of two epochs over \<open>example_classes\<close>: after the
  first epoch's callback.
\<close>

definition example_running_state :: state where
  "example_running_state =
     snd (trainModel (fit_events example_env) 1 (onEpochEnd (startTime example_env) 2 6)
            (snd (prepare example_env 6 (begin_run example_state))))"

text \<open>
  A trained head for three classes whose dense layer gives classes 0 and 2 the same
  logit and class 1 a larger one.
\<close>

definition example_crafted_head :: transfer_model where
  "example_crafted_head = example_head\<lparr>units := 3, bias := (\<lambda>k. if k = 1 then 1 else 0)\<rparr>"

definition example_crafted_state :: state where
  "example_crafted_state =
     example_ready_state
       \<lparr>mlModel := \<lparr>model = Some example_crafted_head, isReady = True,
                    baseModel = Some example_base\<rparr>\<rparr>"

text \<open>The page after a successful training run on \<open>example_classes\<close>.\<close>

definition example_ready_page :: page where
  "example_ready_page =
     \<lparr>hook = example_ready_state, classes = example_classes, predictions = []\<rparr>"

text \<open>
  A session: the page is mounted and the base model loads, samples are added, a run of
  two epochs completes, and then the second class is removed. \<open>example_session\<close> stops
  before the removal.
\<close>

definition example_session :: "event list" where
  "example_session =
     [Mount True True (Some example_base) example_tf,
      ClassesChange example_tf example_classes,
      StartTraining example_env 2]"

definition example_removal :: "event list" where
  "example_removal =
     example_session @ [ClassesChange example_tf (removeClass ''class-2'' example_classes)]"

section \<open>Facts about the hook's operations\<close>

text \<open>
  What each stage of \<open>startTraining\<close> leaves untouched, and what \<open>fit\<close> adds to the
  progress stream and to the history.
\<close>

lemmas example_defs = example_sample_def example_classes_def example_empty_class_def
  example_base_def example_tf_def example_head_def example_state_def example_ready_state_def
  example_env_def example_failing_env_def example_running_state_def initial_state_def
  createTransferModel_def

lemmas setters = setError_def setTrainingStatus_def setTrainingHistory_def
  setTrainingProgress_def setModel_def tf_alloc_def dispose_def

lemma convert_images_frame:
  "convert_images ok xs s = (c, s') \<Longrightarrow>
     mlModel s' = mlModel s \<and> trainingStatus s' = trainingStatus s
     \<and> trainingHistory s' = trainingHistory s \<and> error s' = error s
     \<and> progressStream s' = progressStream s \<and> trainingProgress s' = trainingProgress s
     \<and> c \<noteq> Pending"
  by (induction xs arbitrary: s) (auto simp: tf_alloc_def split: if_splits)

lemma prepare_frame:
  assumes "prepare env n s = (c, s')"
  shows "mlModel s' = mlModel s \<and> trainingStatus s' = trainingStatus s
     \<and> trainingHistory s' = trainingHistory s \<and> error s' = error s
     \<and> progressStream s' = progressStream s \<and> trainingProgress s' = trainingProgress s"
proof (cases "convert_images (pixels_ok env) [0..<n] s")
  case (Pair c2 s2)
  from convert_images_frame[OF Pair] assms Pair show ?thesis
    by (auto simp: prepare_def tf_alloc_def Let_def split: if_splits completion.splits)
qed

lemma onEpochEnd_frame:
  "mlModel (onEpochEnd st ep n e l a now s) = mlModel s"
  "trainingStatus (onEpochEnd st ep n e l a now s) = trainingStatus s"
  "error (onEpochEnd st ep n e l a now s) = error s"
  "liveTensors (onEpochEnd st ep n e l a now s) = liveTensors s"
  by (simp_all add: onEpochEnd_def setters Let_def)

lemma set_weights_frame:
  "isReady (mlModel (set_weights r s)) = isReady (mlModel s)"
  "baseModel (mlModel (set_weights r s)) = baseModel (mlModel s)"
  "trainingStatus (set_weights r s) = trainingStatus s"
  "error (set_weights r s) = error s"
  "liveTensors (set_weights r s) = liveTensors s"
  "trainingHistory (set_weights r s) = trainingHistory s"
  "progressStream (set_weights r s) = progressStream s"
  "(model (mlModel (set_weights r s)) = None) = (model (mlModel s) = None)"
  by (simp_all add: set_weights_def setters)

lemma fit_frame:
  assumes cb: "\<And>e lg now s. mlModel (cb e lg now s) = mlModel s \<and> trainingStatus (cb e lg now s) = trainingStatus s
      \<and> error (cb e lg now s) = error s \<and> liveTensors (cb e lg now s) = liveTensors s"
  shows "fit ev cb es s = (c, s') \<Longrightarrow>
     isReady (mlModel s') = isReady (mlModel s) \<and> baseModel (mlModel s') = baseModel (mlModel s)
     \<and> trainingStatus s' = trainingStatus s \<and> error s' = error s \<and> liveTensors s' = liveTensors s
     \<and> c \<noteq> Pending"
proof (induction es arbitrary: s)
  case Nil
  then show ?case by simp
next
  case (Cons e es)
  show ?case
  proof (cases "ev e")
    case FitThrows
    with Cons.prems show ?thesis by simp
  next
    case (EpochEnd r)
    with Cons.prems have "fit ev cb es (cb e (report_logs r) (clock r) (set_weights r s)) = (c, s')"
      by simp
    from Cons.IH[OF this] show ?thesis
      by (simp add: cb set_weights_frame)
  qed
qed

lemma trainModel_frame:
  assumes "trainModel ev epochs (onEpochEnd st ep n) s = (c, s')"
  shows "isReady (mlModel s') = isReady (mlModel s) \<and> baseModel (mlModel s') = baseModel (mlModel s)
     \<and> trainingStatus s' = trainingStatus s \<and> error s' = error s \<and> liveTensors s' = liveTensors s
     \<and> c \<noteq> Pending"
  using assms unfolding trainModel_def
  by (rule fit_frame[rotated]) (auto simp: onEpochEnd_frame split: option.splits)

lemma begin_run_frame:
  "mlModel (begin_run s) = mlModel s" "liveTensors (begin_run s) = liveTensors s"
  "progressStream (begin_run s) = progressStream s" "trainingStatus (begin_run s) = Training"
  "trainingHistory (begin_run s) = []" "error (begin_run s) = None"
  by (simp_all add: begin_run_def setters)

lemma training_body_threw_isReady:
  assumes "training_body env cs epochs s = (Threw, s')"
  shows "isReady (mlModel s') = isReady (mlModel s)"
proof (cases "prepare env (length (labels_from 0 cs)) (begin_run s)")
  case (Pair c1 s1)
  note p = prepare_frame[OF Pair]
  show ?thesis
  proof (cases c1)
    case Returned
    obtain c2 s2 where t: "trainModel (fit_events env) epochs
        (onEpochEnd (startTime env) epochs (length (labels_from 0 cs))) s1 = (c2, s2)"
      by (cases "trainModel (fit_events env) epochs
        (onEpochEnd (startTime env) epochs (length (labels_from 0 cs))) s1") auto
    from assms Pair Returned t have "c2 = Threw" "s2 = s'"
      by (auto simp: training_body_def Let_def split: completion.splits)
    with trainModel_frame[OF t] p show ?thesis by (simp add: begin_run_frame)
  next
    case Threw
    with assms Pair have "s1 = s'" by (simp add: training_body_def Let_def)
    with p show ?thesis by (simp add: begin_run_frame)
  next
    case Pending
    with assms Pair show ?thesis by (simp add: training_body_def Let_def)
  qed
qed


lemmas run_defs = startTraining_def training_body_def prepare_def begin_run_def trainModel_def
  onEpochEnd_def set_weights_def setters Let_def






section \<open>Training runs\<close>

text \<open>
  C3. A run that gets past the two checks of \<open>startTraining\<close> and whose \<open>try\<close> block
  throws (while the images are converted, in \<open>tf.stack\<close>, in \<open>tf.oneHot\<close> or in an epoch
  of \<open>fit\<close>) ends in the \<open>catch\<close> block: the status is \<open>error\<close>, the error is the one
  message "Training failed. Please check your data and try again.", and \<open>isReady\<close> is
  what it was before the call.
\<close>

theorem failed_run_keeps_readiness:
  assumes "fst (training_body env cs epochs s) = Threw"
      and "model (mlModel s) \<noteq> None" and "2 \<le> length cs"
      and "\<forall>c \<in> set cs. samples c \<noteq> []"
  shows "fst (startTraining env cs epochs s) = Caught
     \<and> trainingStatus (snd (startTraining env cs epochs s)) = Error
     \<and> error (snd (startTraining env cs epochs s))
         = Some ''Training failed. Please check your data and try again.''
     \<and> isReady (mlModel (snd (startTraining env cs epochs s))) = isReady (mlModel s)"
proof -
  obtain s' where b: "training_body env cs epochs s = (Threw, s')"
    using assms(1) by (cases "training_body env cs epochs s") auto
  have f: "filter (\<lambda>cls. length (samples cls) = 0) cs = []"
    using assms(4) by (auto simp: filter_empty_conv)
  have "startTraining env cs epochs s =
      (Caught, setTrainingStatus Error
         (setError (Some ''Training failed. Please check your data and try again.'') s'))"
    using assms(2,3) b f by (simp add: startTraining_def Let_def)
  with training_body_threw_isReady[OF b] show ?thesis
    by (simp add: setters)
qed

theorem failed_run_keeps_readiness_witness:
  "fst (training_body example_failing_env example_classes 2 example_ready_state) = Threw
   \<and> model (mlModel example_ready_state) \<noteq> None \<and> 2 \<le> length example_classes
   \<and> list_all (\<lambda>c. samples c \<noteq> []) example_classes
   \<and> trainingStatus (snd (startTraining example_failing_env example_classes 2 example_ready_state)) = Error
   \<and> isReady (mlModel (snd (startTraining example_failing_env example_classes 2 example_ready_state)))"
  using failed_run_keeps_readiness[of example_failing_env example_classes 2 example_ready_state]
  by (simp add: example_defs run_defs eval_nat_numeral)



text \<open>
  C6, as the code has it. When some class has no samples, \<open>startTraining\<close> returns at one
  of its two checks: no tensor is allocated, nothing is added to the progress stream,
  and the history, the status and the model are untouched. With a head built and at
  least two classes, it returns at the check for classes without samples, with the
  error that names them.
\<close>

theorem empty_class_rejected:
  assumes "\<exists>c \<in> set cs. samples c = []"
  shows "liveTensors (snd (startTraining env cs epochs s)) = liveTensors s
     \<and> progressStream (snd (startTraining env cs epochs s)) = progressStream s
     \<and> trainingHistory (snd (startTraining env cs epochs s)) = trainingHistory s
     \<and> trainingStatus (snd (startTraining env cs epochs s)) = trainingStatus s
     \<and> mlModel (snd (startTraining env cs epochs s)) = mlModel s
     \<and> (fst (startTraining env cs epochs s) = GuardReturn
          \<or> fst (startTraining env cs epochs s) = NoSamplesReturn)
     \<and> (model (mlModel s) \<noteq> None \<and> 2 \<le> length cs \<longrightarrow>
          fst (startTraining env cs epochs s) = NoSamplesReturn
          \<and> error (snd (startTraining env cs epochs s))
              = Some (no_samples_message (filter (\<lambda>c. samples c = []) cs)))
     \<and> (model (mlModel s) = None \<or> length cs < 2 \<longrightarrow>
          fst (startTraining env cs epochs s) = GuardReturn
          \<and> error (snd (startTraining env cs epochs s))
              = Some ''Model not ready or insufficient classes'')"
proof -
  have "filter (\<lambda>cls. length (samples cls) = 0) cs \<noteq> []"
    using assms by (auto simp: filter_empty_conv)
  then show ?thesis
    by (auto simp: startTraining_def Let_def setError_def)
qed

theorem empty_class_rejected_witness:
  "list_ex (\<lambda>c. samples c = []) (example_classes @ [example_empty_class])
   \<and> model (mlModel example_state) \<noteq> None
   \<and> 2 \<le> length (example_classes @ [example_empty_class])
   \<and> fst (startTraining example_env (example_classes @ [example_empty_class]) 20 example_state)
       = NoSamplesReturn
   \<and> error (snd (startTraining example_env (example_classes @ [example_empty_class]) 20 example_state))
       = Some (''Classes '' @ [CHR 0x22] @ ''Class C'' @ [CHR 0x22] @ '' have no training samples'')
   \<and> liveTensors (snd (startTraining example_env (example_classes @ [example_empty_class]) 20 example_state)) = []
   \<and> progressStream (snd (startTraining example_env (example_classes @ [example_empty_class]) 20 example_state)) = []"
  using empty_class_rejected[of "example_classes @ [example_empty_class]" example_env 20 example_state]
  by (simp add: example_defs no_samples_message_def)

text \<open>
  C6 as stated fails when the first check fires: a single class without samples is
  turned down for the number of classes, with the other message.
\<close>

theorem empty_class_counterexample:
  "samples example_empty_class = []
   \<and> fst (startTraining example_env [example_empty_class] 20 example_state) = GuardReturn
   \<and> error (snd (startTraining example_env [example_empty_class] 20 example_state))
       = Some ''Model not ready or insufficient classes''
   \<and> error (snd (startTraining example_env [example_empty_class] 20 example_state))
       \<noteq> Some (no_samples_message [example_empty_class])"
  by (simp add: example_defs startTraining_def setError_def no_samples_message_def)




text \<open>
  C2. The tensors left allocated after a run over six samples. When the second epoch
  of \<open>fit\<close> throws, the run ends in the \<open>catch\<close> block and \<open>xs\<close> and \<open>ys\<close> are still
  allocated; when every epoch succeeds, both have been disposed.
\<close>

theorem tensors_after_run:
  "fst (startTraining example_failing_env example_classes 2 example_state) = Caught
   \<and> liveTensors (snd (startTraining example_failing_env example_classes 2 example_state))
       = [Normalized 0, Normalized 1, Normalized 2, Normalized 3, Normalized 4, Normalized 5,
          Xs, Labels, Ys]
   \<and> fst (startTraining example_env example_classes 2 example_state) = TryDone
   \<and> liveTensors (snd (startTraining example_env example_classes 2 example_state))
       = [Normalized 0, Normalized 1, Normalized 2, Normalized 3, Normalized 4, Normalized 5,
          Labels]"
  by (simp add: example_defs run_defs eval_nat_numeral)

section \<open>Predictions\<close>

text \<open>
  The sort keeps the elements, their number and their sum; on a list in ascending
  class-index order it produces the order \<open>ranked_before\<close>.
\<close>

lemma set_insert_by: "set (insert_by cmp x ys) = insert x (set ys)"
  by (induction ys) auto

lemma length_insert_by: "length (insert_by cmp x ys) = Suc (length ys)"
  by (induction ys) auto

lemma set_array_sort: "set (array_sort cmp xs) = set xs"
  by (induction xs) (auto simp: array_sort_def set_insert_by)

lemma length_array_sort: "length (array_sort cmp xs) = length xs"
  by (induction xs) (auto simp: array_sort_def length_insert_by)

lemma sum_list_insert_by:
  "sum_list (map f (insert_by cmp x ys)) = (f x :: real) + sum_list (map f ys)"
  by (induction ys) auto

lemma sum_list_array_sort:
  "sum_list (map f (array_sort cmp xs)) = (sum_list (map f xs) :: real)"
  by (induction xs) (auto simp: array_sort_def sum_list_insert_by)

lemma insert_by_ranked:
  assumes "sorted_wrt ranked_before ys" and "\<forall>y \<in> set ys. classIndex x < classIndex y"
  shows "sorted_wrt ranked_before (insert_by (\<lambda>a b. confidence b - confidence a) x ys)"
  using assms
proof (induction ys)
  case Nil
  then show ?case by simp
next
  case (Cons y ys)
  show ?case
  proof (cases "confidence y \<le> confidence x")
    case True
    have "ranked_before x z" if "z \<in> set (y # ys)" for z
    proof -
      have "confidence z \<le> confidence y"
        using that Cons.prems(1) by (auto simp: ranked_before_def)
      with True Cons.prems(2) that show ?thesis
        by (auto simp: ranked_before_def)
    qed
    with True Cons.prems(1) show ?thesis by simp
  next
    case False
    have "sorted_wrt ranked_before (insert_by (\<lambda>a b. confidence b - confidence a) x ys)"
      using Cons by simp
    moreover have "ranked_before y x"
      using False by (simp add: ranked_before_def)
    ultimately show ?thesis
      using False Cons.prems(1) by (auto simp: set_insert_by)
  qed
qed

lemma array_sort_ranked:
  assumes "sorted_wrt (\<lambda>a b. classIndex a < classIndex b) xs"
  shows "sorted_wrt ranked_before (array_sort (\<lambda>a b. confidence b - confidence a) xs)"
  using assms
proof (induction xs)
  case Nil
  then show ?case by (simp add: array_sort_def)
next
  case (Cons x xs)
  have "sorted_wrt ranked_before (array_sort (\<lambda>a b. confidence b - confidence a) xs)"
    using Cons by simp
  moreover have "\<forall>y \<in> set (array_sort (\<lambda>a b. confidence b - confidence a) xs).
      classIndex x < classIndex y"
    using Cons.prems by (simp add: set_array_sort)
  ultimately show ?case
    using insert_by_ranked[of "array_sort (\<lambda>a b. confidence b - confidence a) xs" x]
    by (simp add: array_sort_def)
qed

lemma classIndex_to_predictions:
  "map classIndex (to_predictions cs d) = [0..<length d]"
  by (rule nth_equalityI) (simp_all add: to_predictions_def)

lemma confidence_to_predictions:
  "map confidence (to_predictions cs d) = map (\<lambda>c. c * 100) d"
  by (rule nth_equalityI) (simp_all add: to_predictions_def)

lemma to_predictions_increasing:
  "sorted_wrt (\<lambda>a b. classIndex a < classIndex b) (to_predictions cs d)"
proof -
  have "sorted_wrt (<) (map classIndex (to_predictions cs d))"
    by (simp add: classIndex_to_predictions)
  then show ?thesis by (simp add: sorted_wrt_map)
qed

lemma resizeBilinear_Inr:
  "shape t = [h, w, c] \<Longrightarrow> \<exists>r. resizeBilinear t nh nw = Inr r"
  by (simp add: resizeBilinear_def)

lemma preprocessImage_Inr:
  assumes "well_formed img"
  shows "\<exists>t. preprocessImage img = Inr t"
proof -
  obtain t where t: "fromPixels img = Inr t" "shape t = [height img, width img, 3]"
    using assms by (simp add: fromPixels_def)
  from resizeBilinear_Inr[OF t(2)] obtain r where "resizeBilinear t 224 224 = Inr r" by blast
  with t show ?thesis by (simp add: preprocessImage_def Let_def)
qed

lemma makePrediction_Inr:
  assumes "model (mlModel s) = Some m" and "isReady (mlModel s)" and "well_formed img"
  shows "\<exists>t. preprocessImage img = Inr t \<and> makePrediction img cs s =
     Inr (array_sort (\<lambda>a b. confidence b - confidence a) (to_predictions cs (model_predict m t)))"
proof -
  from preprocessImage_Inr[OF assms(3)] obtain t where "preprocessImage img = Inr t" by blast
  with assms(1,2) show ?thesis
    by (simp add: makePrediction_def predict_def)
qed

lemma example_crafted_predict:
  "model_predict example_crafted_head t = [1 / (2 + exp 1), exp 1 / (2 + exp 1), 1 / (2 + exp 1)]"
  by (simp add: model_predict_def dense_def softmax_def example_crafted_head_def example_defs
      feature_extractor_of_def find_cut_def eval_nat_numeral)

lemma example_crafted_order:
  "map classIndex (array_sort (\<lambda>a b. confidence b - confidence a)
      (to_predictions cs [1 / (2 + exp 1), exp 1 / (2 + exp 1), 1 / (2 + exp 1)])) = [1, 0, 2]"
proof -
  have pos: "0 < 2 + exp (1::real)"
    using exp_gt_zero[of "1::real"] by linarith
  show ?thesis
    using pos by (simp add: array_sort_def to_predictions_def eval_nat_numeral divide_le_cancel)
qed

text \<open>
  C4. For a ready model and a picture the browser decoded, \<open>makePrediction\<close> returns a
  list in which the confidence never increases from one entry to a later one, and in
  which an entry comes before every later entry in the order \<open>ranked_before\<close>: of two
  entries with the same confidence the one with the smaller class index is first.
\<close>

theorem predictions_ranked:
  assumes "model (mlModel s) = Some m" and "isReady (mlModel s)" and "well_formed img"
  shows "\<exists>ps. makePrediction img cs s = Inr ps
     \<and> sorted_wrt (\<lambda>a b. confidence b \<le> confidence a) ps
     \<and> sorted_wrt ranked_before ps"
proof -
  from makePrediction_Inr[OF assms] obtain t where
    ps: "makePrediction img cs s =
     Inr (array_sort (\<lambda>a b. confidence b - confidence a) (to_predictions cs (model_predict m t)))"
    by blast
  let ?ps = "array_sort (\<lambda>a b. confidence b - confidence a) (to_predictions cs (model_predict m t))"
  have r: "sorted_wrt ranked_before ?ps"
    by (rule array_sort_ranked) (rule to_predictions_increasing)
  have "sorted_wrt (\<lambda>a b. confidence b \<le> confidence a) ?ps"
    by (rule sorted_wrt_mono_rel[OF _ r]) (auto simp: ranked_before_def)
  with r show ?thesis using ps by simp
qed

theorem predictions_ranked_witness:
  "model (mlModel example_crafted_state) = Some example_crafted_head
   \<and> isReady (mlModel example_crafted_state)
   \<and> well_formed (imageData example_sample)
   \<and> (\<exists>ps. makePrediction (imageData example_sample) example_classes example_crafted_state = Inr ps
         \<and> map classIndex ps = [1, 0, 2] \<and> sorted_wrt ranked_before ps)"
proof -
  have h: "model (mlModel example_crafted_state) = Some example_crafted_head"
      "isReady (mlModel example_crafted_state)" "well_formed (imageData example_sample)"
    by (simp_all add: example_crafted_state_def example_ready_state_def example_sample_def
        well_formed_def)
  from makePrediction_Inr[OF h, of example_classes] obtain t where
    "makePrediction (imageData example_sample) example_classes example_crafted_state =
     Inr (array_sort (\<lambda>a b. confidence b - confidence a)
            (to_predictions example_classes (model_predict example_crafted_head t)))"
    by blast
  with predictions_ranked[OF h, of example_classes] h show ?thesis
    by (auto simp: example_crafted_predict example_crafted_order)
qed

section \<open>Readiness of the model on the page\<close>


lemma createModel_built:
  assumes "baseModel (mlModel s) = Some b" and "2 \<le> length cs" and "\<not> build_throws tf"
  shows "mlModel (createModel tf cs s) =
     (mlModel s)\<lparr>model := Some (createTransferModel (init_kernel tf) b (length cs)), isReady := False\<rparr>"
  using assms by (simp add: createModel_def setters)

lemma error_effect_frame:
  "mlModel (hook (error_effect p)) = mlModel (hook p)" "classes (error_effect p) = classes p"
  by (simp_all add: error_effect_def clearError_def setters)


lemma startTraining_isReady:
  assumes "isReady (mlModel (snd (startTraining env cs epochs s)))"
  shows "isReady (mlModel s) \<or> fst (startTraining env cs epochs s) = TryDone"
proof (cases "fst (startTraining env cs epochs s)")
  case GuardReturn
  with assms show ?thesis
    by (auto simp: startTraining_def Let_def setters split: if_splits prod.splits completion.splits)
next
  case NoSamplesReturn
  with assms show ?thesis
    by (auto simp: startTraining_def Let_def setters split: if_splits prod.splits completion.splits)
next
  case TryDone
  then show ?thesis by simp
next
  case Caught
  then obtain s' where b: "training_body env cs epochs s = (Threw, s')"
    and r: "snd (startTraining env cs epochs s) =
       setTrainingStatus Error
         (setError (Some ''Training failed. Please check your data and try again.'') s')"
    by (auto simp: startTraining_def Let_def split: if_splits prod.splits completion.splits)
  from training_body_threw_isReady[OF b] assms r show ?thesis by (simp add: setters)
next
  case NeverSettles
  then obtain s' where b: "training_body env cs epochs s = (Pending, s')"
    and r: "snd (startTraining env cs epochs s) = s'"
    by (auto simp: startTraining_def Let_def split: if_splits prod.splits completion.splits)
  obtain c1 s1 where p: "prepare env (length (labels_from 0 cs)) (begin_run s) = (c1, s1)"
    by (cases "prepare env (length (labels_from 0 cs)) (begin_run s)") auto
  obtain c2 s2 where t: "trainModel (fit_events env) epochs
      (onEpochEnd (startTime env) epochs (length (labels_from 0 cs))) s1 = (c2, s2)"
    by (cases "trainModel (fit_events env) epochs
      (onEpochEnd (startTime env) epochs (length (labels_from 0 cs))) s1") auto
  from trainModel_frame[OF t] have "c2 \<noteq> Pending" by simp
  with b p t have "s' = s1"
    by (cases c1; cases c2) (auto simp: training_body_def Let_def)
  with prepare_frame[OF p] assms r show ?thesis by (simp add: begin_run_frame)
qed

lemma handleStartTraining_cases:
  "handleStartTraining env epochs p =
     (if passes_validation (classes p)
      then error_effect (p\<lparr>hook := snd (startTraining env (classes p) epochs (hook p))\<rparr>) else p)"
  by (auto simp: handleStartTraining_def passes_validation_def Let_def not_less)



lemma onClassesChange_rebuilds:
  assumes "baseModel (mlModel (hook p)) = Some b" and "2 \<le> length new" and "\<not> build_throws tf"
  shows "mlModel (hook (onClassesChange tf new p)) =
     (mlModel (hook p))\<lparr>model := Some (createTransferModel (init_kernel tf) b (length new)),
                         isReady := False\<rparr>"
  using assms by (simp add: onClassesChange_def error_effect_frame create_effect_def createModel_built)

text \<open>
  C10. While a base model is loaded, every new class list of at least two classes
  handed to \<open>onClassesChange\<close>, whatever changed in it (a name, a sample, the number of
  classes), makes the effect on \<open>classes\<close> call \<open>createModel\<close>: when the library builds
  the head without throwing, the head is replaced by a new one with one unit per class
  and \<open>isReady\<close> is false afterwards.
\<close>

theorem any_class_change_resets_readiness:
  assumes "baseModel (mlModel (hook p)) = Some b" and "2 \<le> length new" and "\<not> build_throws tf"
  shows "\<not> isReady (mlModel (hook (onClassesChange tf new p)))
     \<and> model (mlModel (hook (onClassesChange tf new p)))
         = Some (createTransferModel (init_kernel tf) b (length new))
     \<and> classes (onClassesChange tf new p) = new"
  using onClassesChange_rebuilds[OF assms]
  by (simp add: onClassesChange_def error_effect_frame create_effect_def)

theorem any_class_change_resets_readiness_witness:
  "baseModel (mlModel (hook example_ready_page)) = Some example_base
   \<and> isReady (mlModel (hook example_ready_page))
   \<and> 2 \<le> length (updateClassName ''class-1'' ''Cats'' (classes example_ready_page))
   \<and> \<not> build_throws example_tf
   \<and> \<not> isReady (mlModel (hook (onClassesChange example_tf
          (updateClassName ''class-1'' ''Cats'' (classes example_ready_page)) example_ready_page)))
   \<and> 2 \<le> length (addSample ''class-2'' example_sample (classes example_ready_page))
   \<and> \<not> isReady (mlModel (hook (onClassesChange example_tf
          (addSample ''class-2'' example_sample (classes example_ready_page)) example_ready_page)))"
  using any_class_change_resets_readiness[of example_ready_page example_base
          "updateClassName ''class-1'' ''Cats'' (classes example_ready_page)" example_tf]
        any_class_change_resets_readiness[of example_ready_page example_base
          "addSample ''class-2'' example_sample (classes example_ready_page)" example_tf]
  by (simp add: example_ready_page_def example_defs updateClassName_def addSample_def)




section \<open>Image preprocessing\<close>












section \<open>The softmax head and the states the page can reach\<close>

text \<open>
  The softmax of a non-empty vector sums to one, and \<open>head_invariant\<close> holds after every
  event.
\<close>

lemma sum_list_exp_pos:
  assumes "zs \<noteq> []"
  shows "0 < sum_list (map exp (zs :: real list))"
proof -
  from assms obtain z rest where zs: "zs = z # rest" by (cases zs) auto
  have "0 \<le> sum_list (map exp rest)" by (rule sum_list_nonneg) auto
  moreover have "0 < exp z" by simp
  ultimately show ?thesis unfolding zs by (simp add: add_pos_nonneg)
qed

lemma sum_list_softmax:
  assumes "zs \<noteq> []"
  shows "sum_list (softmax zs) = 1"
proof -
  let ?S = "sum_list (map exp zs)"
  have "sum_list (softmax zs) = sum_list (map (\<lambda>z. exp z * inverse ?S) zs)"
    by (simp add: softmax_def divide_inverse)
  also have "\<dots> = sum_list (map exp zs) * inverse ?S"
    by (simp add: sum_list_mult_const)
  also have "\<dots> = 1"
    using sum_list_exp_pos[OF assms] by simp
  finally show ?thesis .
qed

lemma length_model_predict: "length (model_predict m t) = units m"
  by (simp add: model_predict_def softmax_def dense_def)

lemma sum_list_model_predict:
  assumes "0 < units m"
  shows "sum_list (model_predict m t) = 1"
proof -
  have "dense m (featureExtractor m t) \<noteq> []"
    using assms by (simp add: dense_def)
  then show ?thesis by (simp add: model_predict_def sum_list_softmax)
qed

lemma distinct_map_insert_by:
  "distinct (map f (insert_by cmp x ys)) \<longleftrightarrow> f x \<notin> f ` set ys \<and> distinct (map f ys)"
  by (induction ys) (auto simp: set_insert_by)

lemma distinct_map_array_sort:
  "distinct (map f (array_sort cmp xs)) \<longleftrightarrow> distinct (map f xs)"
proof (induction xs)
  case Nil
  then show ?case by (simp add: array_sort_def)
next
  case (Cons x xs)
  have "array_sort cmp (x # xs) = insert_by cmp x (array_sort cmp xs)"
    by (simp add: array_sort_def)
  with Cons show ?case
    by (simp add: distinct_map_insert_by set_array_sort)
qed

lemma ranked_list_facts:
  fixes d :: "real list" and cs :: "TrainingClass list"
  defines "ps \<equiv> array_sort (\<lambda>a b. confidence b - confidence a) (to_predictions cs d)"
  shows "length ps = length d"
    and "set (map classIndex ps) = {0..<length d}"
    and "distinct (map classIndex ps)"
    and "sum_list (map confidence ps) = 100 * sum_list d"
proof -
  show "length ps = length d"
    by (simp add: ps_def length_array_sort to_predictions_def)
  have "set (map classIndex ps) = set (map classIndex (to_predictions cs d))"
    by (simp add: ps_def set_array_sort)
  then show "set (map classIndex ps) = {0..<length d}"
    by (simp only: classIndex_to_predictions set_upt)
  show "distinct (map classIndex ps)"
    by (simp add: ps_def distinct_map_array_sort classIndex_to_predictions)
  have "sum_list (map confidence ps) = sum_list (map confidence (to_predictions cs d))"
    by (simp add: ps_def sum_list_array_sort)
  also have "\<dots> = sum_list (map (\<lambda>c. c * 100) d)"
    by (simp only: confidence_to_predictions)
  also have "\<dots> = 100 * sum_list d"
    by (simp add: sum_list_mult_const)
  finally show "sum_list (map confidence ps) = 100 * sum_list d" .
qed

lemma head_invariant_mlModel:
  "mlModel s' = mlModel s \<Longrightarrow> head_invariant s' = head_invariant s"
  by (simp add: head_invariant_def split: option.splits)

lemma head_invariant_error [simp]: "head_invariant (setError e s) = head_invariant s"
  by (rule head_invariant_mlModel) (simp add: setters)

lemma fit_units:
  assumes cb: "\<And>e lg now s. mlModel (cb e lg now s) = mlModel s"
  shows "map_option units (model (mlModel (snd (fit ev cb es s))))
       = map_option units (model (mlModel s))"
proof (induction es arbitrary: s)
  case Nil
  then show ?case by simp
next
  case (Cons e es)
  show ?case
  proof (cases "ev e")
    case FitThrows
    then show ?thesis by simp
  next
    case (EpochEnd r)
    have "map_option units (model (mlModel (cb e (report_logs r) (clock r) (set_weights r s))))
        = map_option units (model (mlModel s))"
      by (simp add: cb set_weights_def setters option.map_comp comp_def)
    with Cons.IH[of "cb e (report_logs r) (clock r) (set_weights r s)"] EpochEnd
    show ?thesis by simp
  qed
qed

lemma trainModel_units:
  "map_option units (model (mlModel (snd (trainModel ev epochs (onEpochEnd st ep n) s))))
     = map_option units (model (mlModel s))"
  unfolding trainModel_def
  by (rule fit_units) (auto simp: onEpochEnd_frame split: option.splits)

lemma startTraining_units:
  "map_option units (model (mlModel (snd (startTraining env cs epochs s))))
     = map_option units (model (mlModel s))"
proof -
  let ?n = "length (labels_from 0 cs)"
  obtain c1 s1 where p: "prepare env ?n (begin_run s) = (c1, s1)"
    by (cases "prepare env ?n (begin_run s)") auto
  obtain c2 s2 where t: "trainModel (fit_events env) epochs
      (onEpochEnd (startTime env) epochs ?n) s1 = (c2, s2)"
    by (cases "trainModel (fit_events env) epochs (onEpochEnd (startTime env) epochs ?n) s1") auto
  have u1: "map_option units (model (mlModel s1)) = map_option units (model (mlModel s))"
    using prepare_frame[OF p] by (simp add: begin_run_frame)
  have u2: "map_option units (model (mlModel s2)) = map_option units (model (mlModel s))"
    using trainModel_units[of "fit_events env" epochs "startTime env" epochs ?n s1] t u1 by simp
  show ?thesis
    using p t u1 u2
    by (cases c1; cases c2)
       (auto simp: startTraining_def training_body_def Let_def setters)
qed

lemma startTraining_head_invariant:
  assumes "head_invariant s"
  shows "head_invariant (snd (startTraining env cs epochs s))"
proof (cases "model (mlModel (snd (startTraining env cs epochs s)))")
  case None
  then have n: "model (mlModel s) = None"
    using startTraining_units[of env cs epochs s] by simp
  have "\<not> isReady (mlModel (snd (startTraining env cs epochs s)))"
  proof
    assume "isReady (mlModel (snd (startTraining env cs epochs s)))"
    from startTraining_isReady[OF this] assms n
    have "fst (startTraining env cs epochs s) = TryDone"
      by (simp add: head_invariant_def)
    with n show False by (simp add: startTraining_def)
  qed
  with None show ?thesis by (simp add: head_invariant_def)
next
  case (Some m')
  then obtain m where "model (mlModel s) = Some m" "units m' = units m"
    using startTraining_units[of env cs epochs s] by (cases "model (mlModel s)") auto
  with assms Some show ?thesis by (simp add: head_invariant_def)
qed

lemma createModel_head_invariant:
  "head_invariant s \<Longrightarrow> head_invariant (createModel tf cs s)"
  by (auto simp: createModel_def head_invariant_def setters createTransferModel_def
      split: option.splits)

lemma head_invariant_hook_error_effect [simp]:
  "head_invariant (hook (error_effect p)) = head_invariant (hook p)"
  by (rule head_invariant_mlModel) (rule error_effect_frame)

lemma exportModel_head_invariant [simp]:
  "head_invariant (exportModel save_throws s) = head_invariant s"
  by (simp add: exportModel_def)

lemma step_head_invariant:
  assumes "head_invariant (hook p)"
  shows "head_invariant (hook (step ev p))"
proof (cases ev)
  case (Mount webgl cpu loaded tf)
  have l: "head_invariant (loadBaseModel loaded s)" if "head_invariant s" for s
    using that by (auto simp: loadBaseModel_def head_invariant_def setters split: option.splits)
  have i: "head_invariant (initTensorFlow webgl cpu s)" if "head_invariant s" for s
    using that by (auto simp: initTensorFlow_def head_invariant_def setters split: option.splits)
  from Mount assms show ?thesis
    by (auto simp: mount_def create_effect_def load_effect_def
        intro!: createModel_head_invariant l i)
next
  case (ClassesChange tf new)
  with assms show ?thesis
    by (auto simp: onClassesChange_def create_effect_def intro!: createModel_head_invariant)
next
  case (StartTraining env epochs)
  with assms show ?thesis
    by (auto simp: handleStartTraining_cases intro!: startTraining_head_invariant)
next
  case (Predict element)
  with assms show ?thesis
    by (auto simp: handlePredict_def split: sum.splits)
next
  case (Export save_throws)
  with assms show ?thesis
    by (simp add: handleExportModel_def)
qed

lemma run_head_invariant:
  "head_invariant (hook p) \<Longrightarrow> head_invariant (hook (run evs p))"
  by (induction evs arbitrary: p) (auto intro: step_head_invariant)

lemma reachable_head_invariant: "head_invariant (hook (run evs initial_page))"
  by (rule run_head_invariant) (simp add: head_invariant_def initial_page_def initial_state_def)

lemmas page_defs = mount_def onClassesChange_def handleStartTraining_def error_effect_def
  create_effect_def load_effect_def createModel_def loadBaseModel_def initTensorFlow_def
  clearError_def initial_page_def example_session_def example_removal_def removeClass_def

lemma example_session_ready:
  "isReady (mlModel (hook (run example_session initial_page)))"
  "map_option units (model (mlModel (hook (run example_session initial_page)))) = Some 2"
  by (simp_all add: page_defs example_defs run_defs eval_nat_numeral)

lemma example_removal_ready:
  "isReady (mlModel (hook (run example_removal initial_page)))"
  "map_option units (model (mlModel (hook (run example_removal initial_page)))) = Some 2"
  "length (classes (run example_removal initial_page)) = 1"
  by (simp_all add: page_defs example_defs run_defs eval_nat_numeral)

lemma ready_prediction_length:
  assumes "model (mlModel s) = Some m" and "isReady (mlModel s)" and "well_formed img"
  shows "\<exists>ps. makePrediction img cs s = Inr ps \<and> length ps = units m"
proof -
  from makePrediction_Inr[OF assms] obtain t where
    "makePrediction img cs s =
       Inr (array_sort (\<lambda>a b. confidence b - confidence a) (to_predictions cs (model_predict m t)))"
    by blast
  then show ?thesis
    using ranked_list_facts(1)[of cs "model_predict m t"] by (simp add: length_model_predict)
qed

text \<open>
  C7, as the code has it. In every state the page can reach in which the model is
  ready, and for every picture the browser decoded, \<open>makePrediction\<close> returns one entry
  for each output unit of the head: the class indices are \<open>0, ..., units - 1\<close>, each
  once, and there are at least two. The number of units is the number of classes the
  head was built for, whatever class list is passed for the names. In real arithmetic
  the confidences sum to exactly 100, which is within 0.5 of 100.
\<close>

theorem predictions_sum_to_100:
  assumes "isReady (mlModel (hook (run evs initial_page)))" and "well_formed img"
  shows "\<exists>m ps. model (mlModel (hook (run evs initial_page))) = Some m \<and> 2 \<le> units m
     \<and> makePrediction img cs (hook (run evs initial_page)) = Inr ps
     \<and> length ps = units m
     \<and> set (map classIndex ps) = {0..<units m} \<and> distinct (map classIndex ps)
     \<and> sum_list (map confidence ps) = 100
     \<and> \<bar>sum_list (map confidence ps) - 100\<bar> \<le> 1 / 2"
proof -
  let ?s = "hook (run evs initial_page)"
  from reachable_head_invariant[of evs] assms(1) obtain m where
    m: "model (mlModel ?s) = Some m" "2 \<le> units m"
    by (auto simp: head_invariant_def split: option.splits)
  from makePrediction_Inr[OF m(1) assms] obtain t where
    ps: "makePrediction img cs ?s =
       Inr (array_sort (\<lambda>a b. confidence b - confidence a) (to_predictions cs (model_predict m t)))"
    by blast
  let ?ps = "array_sort (\<lambda>a b. confidence b - confidence a) (to_predictions cs (model_predict m t))"
  have one: "sum_list (model_predict m t) = 1"
    using m(2) by (intro sum_list_model_predict) simp
  have "length ?ps = units m" "set (map classIndex ?ps) = {0..<units m}"
       "distinct (map classIndex ?ps)" "sum_list (map confidence ?ps) = 100"
    using ranked_list_facts[of cs "model_predict m t"]
    by (simp_all only: length_model_predict one mult_1_right)
  with m ps show ?thesis by simp
qed

theorem predictions_sum_to_100_witness:
  "isReady (mlModel (hook (run example_session initial_page)))
   \<and> well_formed (imageData example_sample)
   \<and> (\<exists>ps. makePrediction (imageData example_sample) example_classes
              (hook (run example_session initial_page)) = Inr ps
         \<and> length ps = 2 \<and> sum_list (map confidence ps) = 100)"
proof -
  have w: "well_formed (imageData example_sample)"
    by (simp add: example_sample_def well_formed_def)
  from predictions_sum_to_100[OF example_session_ready(1) w, of example_classes]
  obtain m ps where
    "model (mlModel (hook (run example_session initial_page))) = Some m"
    "makePrediction (imageData example_sample) example_classes
       (hook (run example_session initial_page)) = Inr ps"
    "length ps = units m" "sum_list (map confidence ps) = 100"
    by blast
  with example_session_ready w show ?thesis by auto
qed

text \<open>
  C7 as stated fails on the number of entries: after training on two classes and
  removing one, the page has one class, the model is still ready, and the prediction
  has two entries.
\<close>

theorem predictions_per_class_counterexample:
  "isReady (mlModel (hook (run example_removal initial_page)))
   \<and> length (classes (run example_removal initial_page)) = 1
   \<and> (\<exists>ps. makePrediction (imageData example_sample) (classes (run example_removal initial_page))
              (hook (run example_removal initial_page)) = Inr ps
         \<and> length ps = 2)"
proof -
  have w: "well_formed (imageData example_sample)"
    by (simp add: example_sample_def well_formed_def)
  from example_removal_ready(2) obtain m where
    m: "model (mlModel (hook (run example_removal initial_page))) = Some m" "units m = 2"
    by auto
  from ready_prediction_length[OF m(1) example_removal_ready(1) w,
      of "classes (run example_removal initial_page)"] m(2) example_removal_ready
  show ?thesis by auto
qed

end
